theory Spec2Isabelle
  imports Main "HOL-Library.AList"
begin

section \<open>Data model\<close>

text \<open>
  The activation pipeline is \<open>StartRunService\<close>. It works on rows that the Prisma
  client returns; each row type is a record here, each enum a datatype. Identifiers are
  strings, as in the source. Three statuses are named by the source; every other status
  of a run belongs to other services and is kept as \<open>OTHER\<close> with its name.
\<close>

datatype authSource = LOCAL | RESOLVER | HOSTED

datatype connectionType = DEVELOPER | EXTERNAL

datatype jobRunStatus = PENDING | WAITING_ON_CONNECTIONS | QUEUED | OTHER string

record integration =
  integ_id :: string
  integ_authSource :: authSource

record integrationConnection =
  conn_id :: string
  conn_integrationId :: string
  conn_connectionType :: connectionType
  conn_externalAccountId :: "string option"

text \<open>One entry of \<open>run.version.integrations\<close>, with its integration included.\<close>

record jobIntegration =
  ji_key :: string
  ji_integration :: integration

text \<open>
  A run as \<open>findRun\<close> returns it: the scalar columns the pipeline reads or writes, and
  the integrations of the job version the run targets. The pipeline never writes a job
  version, so the included list is stored with the run.
\<close>

record jobRun =
  run_jobId :: string
  run_status :: jobRunStatus
  run_externalAccountId :: "string option"
  run_number :: "int option"
  run_queuedAt :: "int option"
  run_integrations :: "jobIntegration list"

text \<open>A row of the run-connection table, created by the nested write of \<open>#startRun\<close>.\<close>

record runConnectionRow =
  rc_runId :: string
  rc_key :: string
  rc_connectionId :: "string option"
  rc_integrationId :: string
  rc_authSource :: authSource

text \<open>
  A missing connection with the runs attached to it (the many-to-many relation, as the
  list of the attached runs' ids, without repetition).
\<close>

record missingConnection =
  mc_id :: nat
  mc_integrationId :: string
  mc_connectionType :: connectionType
  mc_accountIdentifier :: string
  mc_externalAccountId :: "string option"
  mc_resolved :: bool
  mc_runs :: "string list"

text \<open>
  Jobs handed to the worker queue, in the order they are handed over: the notification
  \<open>workerQueue.enqueue("missingConnectionCreated", {id})\<close> and the dispatch of a
  queued run by \<open>ResumeRunService.enqueue\<close>.
\<close>

datatype workerJob = MissingConnectionCreated nat | ResumeRun string

record store =
  jobRuns :: "string \<rightharpoonup> jobRun"
  integrationConnections :: "integrationConnection list"
  jobCounters :: "string \<rightharpoonup> int"
  runConnections :: "runConnectionRow list"
  missingConnections :: "missingConnection list"
  nextMissingId :: nat
  workerJobs :: "workerJob list"

section \<open>The connection resolver\<close>

text \<open>
  The four-way result of \<open>createRunConnections\<close>, a tagged union in the source.
  \<open>Missing\<close> carries the connection type, the integration and the optional
  external account id.
\<close>

datatype runConnection =
    ResolvedHosted integrationConnection integration
  | ResolvedLocal integration
  | ResolvedResolver integration
  | Missing connectionType integration "string option"

text \<open>
  The source tests \<open>run.externalAccountId\<close> with \<open>?\<close>: null and the empty string
  are both falsy.
\<close>

fun truthy :: "string option \<Rightarrow> bool" where
  "truthy None = False"
| "truthy (Some s) = (s \<noteq> [])"

text \<open>
  The \<open>where\<close> argument of \<open>integrationConnection.findFirst\<close>. The DEVELOPER
  lookup has no \<open>externalAccountId\<close> entry (\<open>None\<close> here).
\<close>

record connectionWhere =
  w_integrationId :: string
  w_connectionType :: connectionType
  w_externalAccountId :: "string option"

definition matchesWhere :: "connectionWhere \<Rightarrow> integrationConnection \<Rightarrow> bool" where
  "matchesWhere w c \<longleftrightarrow>
     conn_integrationId c = w_integrationId w \<and>
     conn_connectionType c = w_connectionType w \<and>
     (case w_externalAccountId w of
        None \<Rightarrow> True
      | Some a \<Rightarrow> conn_externalAccountId c = Some a)"

definition findFirst :: "store \<Rightarrow> connectionWhere \<Rightarrow> integrationConnection option" where
  "findFirst db w = find (matchesWhere w) (integrationConnections db)"

text \<open>The one lookup issued for a HOSTED integration.\<close>

definition hostedWhere :: "jobRun \<Rightarrow> jobIntegration \<Rightarrow> connectionWhere" where
  "hostedWhere run ji =
     (if truthy (run_externalAccountId run)
      then \<lparr>w_integrationId = integ_id (ji_integration ji),
            w_connectionType = EXTERNAL,
            w_externalAccountId = run_externalAccountId run\<rparr>
      else \<lparr>w_integrationId = integ_id (ji_integration ji),
            w_connectionType = DEVELOPER,
            w_externalAccountId = None\<rparr>)"

text \<open>
  \<open>acc[key] = v\<close> on the plain object the reducer starts from. The key
  \<open>__proto__\<close> is the prototype accessor that the object inherits: assigning an object
  to it replaces the prototype and adds no property of the record's own, so
  \<open>Object.values\<close> and \<open>Object.entries\<close> do not list it. Every other key is set in
  place or appended.
\<close>

definition assign :: "string \<Rightarrow> 'v \<Rightarrow> (string \<times> 'v) list \<Rightarrow> (string \<times> 'v) list" where
  "assign key v acc = (if key = ''__proto__'' then acc else AList.update key v acc)"

text \<open>
  The reducer of \<open>createRunConnections\<close>. The accumulator is the record built so far,
  as the association list of its own entries in insertion order, together with the
  lookups issued so far. JavaScript lists keys that are array indices before the
  others; nothing below depends on the order of the record.
\<close>

definition resolveStep ::
  "store \<Rightarrow> jobRun \<Rightarrow> connectionWhere list \<times> (string \<times> runConnection) list \<Rightarrow> jobIntegration
     \<Rightarrow> connectionWhere list \<times> (string \<times> runConnection) list" where
  "resolveStep db run qacc ji =
     (let qs = fst qacc; acc = snd qacc; integ = ji_integration ji in
      if integ_authSource integ = LOCAL then
        (qs, assign (ji_key ji) (ResolvedLocal integ) acc)
      else if integ_authSource integ = RESOLVER then
        (qs, assign (ji_key ji) (ResolvedResolver integ) acc)
      else
        (case findFirst db (hostedWhere run ji) of
           Some connection \<Rightarrow>
             (qs @ [hostedWhere run ji],
              assign (ji_key ji) (ResolvedHosted connection integ) acc)
         | None \<Rightarrow>
             (qs @ [hostedWhere run ji],
              assign (ji_key ji)
                (Missing (if truthy (run_externalAccountId run) then EXTERNAL else DEVELOPER)
                   integ (run_externalAccountId run)) acc)))"

definition createRunConnections ::
  "store \<Rightarrow> jobRun \<Rightarrow> connectionWhere list \<times> (string \<times> runConnection) list" where
  "createRunConnections db run = foldl (resolveStep db run) ([], []) (run_integrations run)"

fun isMissing :: "runConnection \<Rightarrow> bool" where
  "isMissing (Missing t i a) = True"
| "isMissing _ = False"

definition hasMissingConnections :: "(string \<times> runConnection) list \<Rightarrow> bool" where
  "hasMissingConnections runConnectionsByKey = list_ex isMissing (map snd runConnectionsByKey)"

section \<open>Collaborators outside the service\<close>

text \<open>
  What the service needs from outside: the SHA-256 hex digest of \<open>node:crypto\<close>
  (\<open>createHash("sha256").update(s).digest("hex")\<close>), the clock read by
  \<open>new Date()\<close>, and where, if anywhere, the queue transition's transaction fails. A
  timeout of the transaction shows as the failure of the transaction client's next
  statement or of the commit.
\<close>

datatype fault = NoFault | LockFails | UpsertFails | RunUpdateFails | EnqueueFails | CommitFails

record env =
  digestHex :: "string \<Rightarrow> string"
  now :: int
  fault :: fault

text \<open>
  How an activation ends: every statement it issued went through, or one failed (the
  source throws, or \<open>$transaction\<close> reports the failure).
\<close>

datatype completion = Completed | Failed

section \<open>The lock key of a job\<close>

definition hexDigit :: "char \<Rightarrow> int option" where
  "hexDigit c =
     (let n = of_char c :: int in
      if 48 \<le> n \<and> n \<le> 57 then Some (n - 48)
      else if 97 \<le> n \<and> n \<le> 102 then Some (n - 87)
      else if 65 \<le> n \<and> n \<le> 70 then Some (n - 55)
      else None)"

fun hexPrefix :: "string \<Rightarrow> int list" where
  "hexPrefix [] = []"
| "hexPrefix (c # cs) = (case hexDigit c of None \<Rightarrow> [] | Some d \<Rightarrow> d # hexPrefix cs)"

text \<open>
  \<open>parseInt(s, 16)\<close> on a string without sign, blanks or \<open>0x\<close> (a slice of a hex
  digest has none): the value of the leading hex digits, and NaN (\<open>None\<close>) when there
  is none.
\<close>

definition parseInt16 :: "string \<Rightarrow> int option" where
  "parseInt16 s =
     (case hexPrefix s of
        [] \<Rightarrow> None
      | d # ds \<Rightarrow> Some (foldl (\<lambda>n x. 16 * n + x) 0 (d # ds)))"

definition jobIdToLockId :: "env \<Rightarrow> string \<Rightarrow> int option" where
  "jobIdToLockId e jobId = parseInt16 (take 8 (digestHex e jobId))"

section \<open>The queue transition\<close>

text \<open>
  Modelled from the spec: \<open>$transaction\<close> of \<open>~/db.server\<close> and
  \<open>ResumeRunService.enqueue\<close> of \<open>./resumeRun.server\<close> are not among the sources.
  The writes issued through the transaction client \<open>tx\<close> are held back until the
  commit and dropped when the transaction fails or times out; \<open>enqueue\<close> hands the run
  to the execution dispatch through the client it is given.
\<close>

record txBuffer =
  tx_counterWrites :: "string \<rightharpoonup> int"
  tx_enqueued :: "workerJob list"

definition txBegin :: txBuffer where
  "txBegin = \<lparr>tx_counterWrites = Map.empty, tx_enqueued = []\<rparr>"

definition txCommit :: "txBuffer \<Rightarrow> store \<Rightarrow> store" where
  "txCommit tx db =
     db\<lparr>jobCounters := jobCounters db ++ tx_counterWrites tx,
        workerJobs := workerJobs db @ tx_enqueued tx\<rparr>"

text \<open>\<open>tx.jobCounter.upsert\<close>: create at 1 or increment, and select \<open>lastNumber\<close>.\<close>

definition jobCounterUpsert :: "string \<Rightarrow> store \<Rightarrow> txBuffer \<Rightarrow> int \<times> txBuffer" where
  "jobCounterUpsert jobId db tx =
     (let lastNumber =
        (case (jobCounters db ++ tx_counterWrites tx) jobId of
           None \<Rightarrow> 1
         | Some n \<Rightarrow> n + 1)
      in (lastNumber, tx\<lparr>tx_counterWrites := (tx_counterWrites tx)(jobId \<mapsto> lastNumber)\<rparr>))"

definition enqueueResumeRun :: "string \<Rightarrow> txBuffer \<Rightarrow> txBuffer" where
  "enqueueResumeRun rid tx = tx\<lparr>tx_enqueued := tx_enqueued tx @ [ResumeRun rid]\<rparr>"

text \<open>
  \<open>this.#prismaClient.jobRun.update\<close> of \<open>#startRun\<close>: issued through the service's
  own client, so it takes effect at once. It throws when there is no such run.
\<close>

definition jobRunUpdateQueued ::
  "string \<Rightarrow> int \<Rightarrow> int \<Rightarrow> runConnectionRow list \<Rightarrow> store \<Rightarrow> store option" where
  "jobRunUpdateQueued rid n t rows db =
     (case jobRuns db rid of
        None \<Rightarrow> None
      | Some r \<Rightarrow>
          Some (db\<lparr>jobRuns := (jobRuns db)(rid \<mapsto>
                       r\<lparr>run_number := Some n, run_status := QUEUED, run_queuedAt := Some t\<rparr>),
                    runConnections := runConnections db @ rows\<rparr>))"

fun runConnectionData :: "string \<Rightarrow> string \<times> runConnection \<Rightarrow> runConnectionRow option" where
  "runConnectionData rid (key, ResolvedHosted connection integ) =
     Some \<lparr>rc_runId = rid, rc_key = key, rc_connectionId = Some (conn_id connection),
           rc_integrationId = integ_id integ, rc_authSource = HOSTED\<rparr>"
| "runConnectionData rid (key, ResolvedLocal integ) =
     Some \<lparr>rc_runId = rid, rc_key = key, rc_connectionId = None,
           rc_integrationId = integ_id integ, rc_authSource = LOCAL\<rparr>"
| "runConnectionData rid (key, ResolvedResolver integ) =
     Some \<lparr>rc_runId = rid, rc_key = key, rc_connectionId = None,
           rc_integrationId = integ_id integ, rc_authSource = RESOLVER\<rparr>"
| "runConnectionData rid (key, Missing t integ a) = None"

text \<open>
  The statements of the queue transition, in the order they are issued, and
  \<open>#startRun\<close>. The lock, the upsert and the hand-off go through \<open>tx\<close>; the update
  of the run goes through \<open>this.#prismaClient\<close>. A statement that fails ends the
  transaction: what \<open>tx\<close> holds is dropped, what the service's own client wrote stays.
\<close>

datatype statement =
    AdvisoryXactLock "int option"
  | JobCounterUpsert string
  | JobRunUpdate string
  | EnqueueResumeRun string

definition startRun ::
  "env \<Rightarrow> string \<Rightarrow> jobRun \<Rightarrow> (string \<times> runConnection) list \<Rightarrow> store
     \<Rightarrow> completion \<times> statement list \<times> store" where
  "startRun e rid run runConnectionsByKey db =
     (let createRunConnectionsData = List.map_filter (runConnectionData rid) runConnectionsByKey;
          lockId = jobIdToLockId e (run_jobId run);
          tx0 = txBegin;
          s1 = [AdvisoryXactLock lockId]
      in if fault e = LockFails then (Failed, s1, db)
      else
        let s2 = s1 @ [JobCounterUpsert (run_jobId run)] in
        if fault e = UpsertFails then (Failed, s2, db)
        else
          let (lastNumber, tx1) = jobCounterUpsert (run_jobId run) db tx0;
              s3 = s2 @ [JobRunUpdate rid]
          in if fault e = RunUpdateFails then (Failed, s3, db)
          else
            (case jobRunUpdateQueued rid lastNumber (now e) createRunConnectionsData db of
               None \<Rightarrow> (Failed, s3, db)
             | Some db1 \<Rightarrow>
                 let s4 = s3 @ [EnqueueResumeRun rid] in
                 if fault e = EnqueueFails then (Failed, s4, db1)
                 else
                   let tx2 = enqueueResumeRun rid tx1 in
                   if fault e = CommitFails then (Failed, s4, db1)
                   else (Completed, s4, txCommit tx2 db1)))"

section \<open>The missing-connection tracker\<close>

record missingKey =
  k_integrationId :: string
  k_connectionType :: connectionType
  k_accountIdentifier :: string

record missingCreate =
  c_integrationId :: string
  c_connectionType :: connectionType
  c_accountIdentifier :: string
  c_externalAccountId :: "string option"
  c_resolved :: bool

record connectOrCreateArg =
  coc_where :: missingKey
  coc_create :: missingCreate

text \<open>\<open>x ?? "DEVELOPER"\<close>: the default replaces only an absent value.\<close>

fun orDeveloper :: "string option \<Rightarrow> string" where
  "orDeveloper None = ''DEVELOPER''"
| "orDeveloper (Some a) = a"

text \<open>
  One element of the \<open>connectOrCreate\<close> list: the source filters the missing
  entries and maps each to its \<open>where\<close> and \<open>create\<close>.
\<close>

fun connectOrCreateOf :: "runConnection \<Rightarrow> connectOrCreateArg option" where
  "connectOrCreateOf (Missing t integ a) =
     Some \<lparr>coc_where = \<lparr>k_integrationId = integ_id integ, k_connectionType = t,
                         k_accountIdentifier = orDeveloper a\<rparr>,
           coc_create = \<lparr>c_integrationId = integ_id integ, c_connectionType = t,
                          c_accountIdentifier = orDeveloper a, c_externalAccountId = a,
                          c_resolved = False\<rparr>\<rparr>"
| "connectOrCreateOf _ = None"

definition keyOf :: "missingConnection \<Rightarrow> missingKey" where
  "keyOf mc = \<lparr>k_integrationId = mc_integrationId mc, k_connectionType = mc_connectionType mc,
               k_accountIdentifier = mc_accountIdentifier mc\<rparr>"

text \<open>
  Prisma's \<open>connectOrCreate\<close> on the relation of a run to its missing connections:
  the row with the unique triple of \<open>where\<close> gets the run attached (attaching twice is
  attaching once); when there is no such row, one is created from \<open>create\<close> with a
  fresh id and the run attached.
\<close>

definition connectOrCreate :: "string \<Rightarrow> store \<Rightarrow> connectOrCreateArg \<Rightarrow> store" where
  "connectOrCreate rid db arg =
     (if list_ex (\<lambda>mc. keyOf mc = coc_where arg) (missingConnections db) then
        db\<lparr>missingConnections :=
             map (\<lambda>mc. if keyOf mc = coc_where arg
                        then mc\<lparr>mc_runs := List.insert rid (mc_runs mc)\<rparr> else mc)
               (missingConnections db)\<rparr>
      else
        db\<lparr>missingConnections := missingConnections db @
             [\<lparr>mc_id = nextMissingId db,
               mc_integrationId = c_integrationId (coc_create arg),
               mc_connectionType = c_connectionType (coc_create arg),
               mc_accountIdentifier = c_accountIdentifier (coc_create arg),
               mc_externalAccountId = c_externalAccountId (coc_create arg),
               mc_resolved = c_resolved (coc_create arg),
               mc_runs = [rid]\<rparr>],
           nextMissingId := Suc (nextMissingId db)\<rparr>)"

text \<open>
  \<open>#handleMissingConnections\<close>: the update of the run with its nested writes, then
  the loop over \<open>updatedRun.missingConnections\<close> (every missing connection the run is
  attached to, with the count of its runs) that enqueues the notifications.
\<close>

definition handleMissingConnections ::
  "string \<Rightarrow> (string \<times> runConnection) list \<Rightarrow> store \<Rightarrow> completion \<times> store" where
  "handleMissingConnections rid runConnectionsByKey db =
     (case jobRuns db rid of
        None \<Rightarrow> (Failed, db)
      | Some r \<Rightarrow>
          let args = List.map_filter connectOrCreateOf (map snd runConnectionsByKey);
              db1 = foldl (connectOrCreate rid)
                      (db\<lparr>jobRuns := (jobRuns db)(rid \<mapsto> r\<lparr>run_status := WAITING_ON_CONNECTIONS\<rparr>)\<rparr>)
                      args;
              updatedMissing = filter (\<lambda>mc. rid \<in> set (mc_runs mc)) (missingConnections db1);
              notified = filter (\<lambda>mc. length (mc_runs mc) = 1) updatedMissing
          in (Completed,
              db1\<lparr>workerJobs := workerJobs db1 @ map (\<lambda>mc. MissingConnectionCreated (mc_id mc)) notified\<rparr>))"

section \<open>The activation gate\<close>

definition findRun :: "store \<Rightarrow> string \<Rightarrow> jobRun option" where
  "findRun db rid = jobRuns db rid"

definition runIsStartable :: "jobRun \<Rightarrow> bool" where
  "runIsStartable run \<longleftrightarrow> run_status run \<in> set [PENDING, WAITING_ON_CONNECTIONS]"

definition call :: "env \<Rightarrow> string \<Rightarrow> store \<Rightarrow> completion \<times> store" where
  "call e rid db =
     (case findRun db rid of
        None \<Rightarrow> (Completed, db)
      | Some run \<Rightarrow>
          if \<not> runIsStartable run then (Completed, db)
          else
            let runConnectionsByKey = snd (createRunConnections db run) in
            if hasMissingConnections runConnectionsByKey
            then handleMissingConnections rid runConnectionsByKey db
            else (let (c, stmts, db') = startRun e rid run runConnectionsByKey db in (c, db')))"

text \<open>
  \<open>call\<close> in its two parts. It first reads: \<open>findRun\<close>, the guard and the resolver,
  each awaited. It then writes, by the run's id alone: the tracker's update or the queue
  transition. Between the two, other activations and other writers of the store can run.
\<close>

datatype decision =
    NotStartable
  | Track "(string \<times> runConnection) list"
  | Queue jobRun "(string \<times> runConnection) list"

definition decide :: "store \<Rightarrow> string \<Rightarrow> decision" where
  "decide db rid =
     (case findRun db rid of
        None \<Rightarrow> NotStartable
      | Some run \<Rightarrow>
          if \<not> runIsStartable run then NotStartable
          else
            let runConnectionsByKey = snd (createRunConnections db run) in
            if hasMissingConnections runConnectionsByKey then Track runConnectionsByKey
            else Queue run runConnectionsByKey)"

definition perform :: "env \<Rightarrow> string \<Rightarrow> decision \<Rightarrow> store \<Rightarrow> completion \<times> store" where
  "perform e rid d db =
     (case d of
        NotStartable \<Rightarrow> (Completed, db)
      | Track runConnectionsByKey \<Rightarrow> handleMissingConnections rid runConnectionsByKey db
      | Queue run runConnectionsByKey \<Rightarrow>
          (let (c, stmts, db') = startRun e rid run runConnectionsByKey db in (c, db')))"

section \<open>The Shopify integration\<close>

text \<open>
  The \<open>apiKey\<close> entry of the options object: not among the object's keys, a key whose
  value is \<open>undefined\<close>, or a key with a string.
\<close>

datatype apiKeyEntry = KeyAbsent | KeyUndefined | KeyString string

record shopifyIntegrationOptions =
  opt_id :: string
  opt_apiKey :: apiKeyEntry
  opt_apiSecretKey :: string
  opt_adminAccessToken :: string
  opt_hostName :: string

fun hasApiKeyKey :: "apiKeyEntry \<Rightarrow> bool" where
  "hasApiKeyKey KeyAbsent = False"
| "hasApiKeyKey _ = True"

fun apiKeyTruthy :: "apiKeyEntry \<Rightarrow> bool" where
  "apiKeyTruthy (KeyString s) = (s \<noteq> [])"
| "apiKeyTruthy _ = False"

record shopify =
  shopify_options :: shopifyIntegrationOptions

text \<open>The constructor; \<open>Inl\<close> is the string it throws.\<close>

definition newShopify :: "shopifyIntegrationOptions \<Rightarrow> string + shopify" where
  "newShopify options =
     (if hasApiKeyKey (opt_apiKey options) \<and> \<not> apiKeyTruthy (opt_apiKey options)
      then Inl (''Can't create Shopify integration ('' @ opt_id options @
                '') as apiKey was undefined'')
      else Inr \<lparr>shopify_options = options\<rparr>)"

definition shopifyAuthSource :: "shopify \<Rightarrow> authSource" where
  "shopifyAuthSource s = (if apiKeyTruthy (opt_apiKey (shopify_options s)) then LOCAL else HOSTED)"

section \<open>Auxiliary definitions\<close>

text \<open>
  What one step of the reducer assigns under the entry's key, whether the key becomes
  an entry of the record, and whether the step issues a lookup.
\<close>

definition resolveOne :: "store \<Rightarrow> jobRun \<Rightarrow> jobIntegration \<Rightarrow> runConnection" where
  "resolveOne db run ji =
     (case integ_authSource (ji_integration ji) of
        LOCAL \<Rightarrow> ResolvedLocal (ji_integration ji)
      | RESOLVER \<Rightarrow> ResolvedResolver (ji_integration ji)
      | HOSTED \<Rightarrow>
          (case findFirst db (hostedWhere run ji) of
             Some connection \<Rightarrow> ResolvedHosted connection (ji_integration ji)
           | None \<Rightarrow>
               Missing (w_connectionType (hostedWhere run ji)) (ji_integration ji)
                 (run_externalAccountId run)))"

definition ownKey :: "jobIntegration \<Rightarrow> bool" where
  "ownKey ji \<longleftrightarrow> ji_key ji \<noteq> ''__proto__''"

definition isHosted :: "jobIntegration \<Rightarrow> bool" where
  "isHosted ji \<longleftrightarrow> integ_authSource (ji_integration ji) = HOSTED"

text \<open>
  The store after the update of \<open>#startRun\<close> has run, and the statements of a queue
  transition that reaches its end.
\<close>

definition queuedStore ::
  "env \<Rightarrow> string \<Rightarrow> jobRun \<Rightarrow> (string \<times> runConnection) list \<Rightarrow> store \<Rightarrow> jobRun \<Rightarrow> store" where
  "queuedStore e rid run rcs db r =
     db\<lparr>jobRuns := (jobRuns db)(rid \<mapsto>
            r\<lparr>run_number := Some (case jobCounters db (run_jobId run) of None \<Rightarrow> 1 | Some n \<Rightarrow> n + 1),
              run_status := QUEUED, run_queuedAt := Some (now e)\<rparr>),
        runConnections := runConnections db @ List.map_filter (runConnectionData rid) rcs\<rparr>"

definition queueStatements :: "env \<Rightarrow> string \<Rightarrow> jobRun \<Rightarrow> statement list" where
  "queueStatements e rid run =
     [AdvisoryXactLock (jobIdToLockId e (run_jobId run)), JobCounterUpsert (run_jobId run),
      JobRunUpdate rid, EnqueueResumeRun rid]"

text \<open>A sequence of activations, each with its own environment, one after the other.\<close>

definition activateAll :: "(env \<times> string) list \<Rightarrow> store \<Rightarrow> store" where
  "activateAll calls db = foldl (\<lambda>d c. snd (call (fst c) (snd c) d)) db calls"



definition attachRun :: "string \<Rightarrow> missingKey \<Rightarrow> missingConnection \<Rightarrow> missingConnection" where
  "attachRun rid w mc = (if keyOf mc = w then mc\<lparr>mc_runs := List.insert rid (mc_runs mc)\<rparr> else mc)"

section \<open>Example data\<close>

definition ex_hosted :: integration where
  "ex_hosted = \<lparr>integ_id = ''shopify'', integ_authSource = HOSTED\<rparr>"

definition ex_requirement :: jobIntegration where
  "ex_requirement = \<lparr>ji_key = ''shop'', ji_integration = ex_hosted\<rparr>"

definition ex_run :: jobRun where
  "ex_run = \<lparr>run_jobId = ''abc'', run_status = PENDING, run_externalAccountId = None,
             run_number = None, run_queuedAt = None, run_integrations = [ex_requirement]\<rparr>"

definition ex_store :: store where
  "ex_store = \<lparr>jobRuns = [''run_1'' \<mapsto> ex_run], integrationConnections = [],
               jobCounters = Map.empty, runConnections = [], missingConnections = [],
               nextMissingId = 0, workerJobs = []\<rparr>"

text \<open>A run on behalf of an external account, where only a DEVELOPER connection exists.\<close>

definition ex_run_external :: jobRun where
  "ex_run_external = ex_run\<lparr>run_externalAccountId := Some ''acct_1''\<rparr>"

definition ex_store_developer :: store where
  "ex_store_developer =
     ex_store\<lparr>jobRuns := [''run_1'' \<mapsto> ex_run_external],
              integrationConnections :=
                [\<lparr>conn_id = ''c1'', conn_integrationId = ''shopify'',
                  conn_connectionType = DEVELOPER, conn_externalAccountId = None\<rparr>]\<rparr>"

text \<open>A run that has been queued.\<close>

definition ex_run_queued :: jobRun where
  "ex_run_queued = ex_run\<lparr>run_status := QUEUED, run_number := Some 1, run_queuedAt := Some 1700000000000\<rparr>"

definition ex_store_queued :: store where
  "ex_store_queued = ex_store\<lparr>jobRuns := [''run_1'' \<mapsto> ex_run_queued], jobCounters := [''abc'' \<mapsto> 1]\<rparr>"

text \<open>An environment: the digest is the SHA-256 of the job id \<open>abc\<close> of the examples.\<close>

definition ex_env :: env where
  "ex_env = \<lparr>digestHex = (\<lambda>s. ''ba7816bf8f01cfea414140de5dae2223b00361a396177a9cb410ff61f20015ad''),
             now = 1700000000000, fault = NoFault\<rparr>"

text \<open>A run whose one requirement is LOCAL.\<close>

definition ex_local :: integration where
  "ex_local = \<lparr>integ_id = ''github'', integ_authSource = LOCAL\<rparr>"

definition ex_run_local :: jobRun where
  "ex_run_local = ex_run\<lparr>run_integrations := [\<lparr>ji_key = ''gh'', ji_integration = ex_local\<rparr>]\<rparr>"

definition ex_store_local :: store where
  "ex_store_local = ex_store\<lparr>jobRuns := [''run_1'' \<mapsto> ex_run_local]\<rparr>"

text \<open>
  The store after the first activation of \<open>run_1\<close> of \<open>ex_store\<close>: the run waits on the
  missing DEVELOPER connection 0, and one notification is enqueued.
\<close>

definition ex_store_waiting :: store where
  "ex_store_waiting =
     ex_store\<lparr>jobRuns := [''run_1'' \<mapsto> ex_run\<lparr>run_status := WAITING_ON_CONNECTIONS\<rparr>],
              missingConnections :=
                [\<lparr>mc_id = 0, mc_integrationId = ''shopify'', mc_connectionType = DEVELOPER,
                  mc_accountIdentifier = ''DEVELOPER'', mc_externalAccountId = None,
                  mc_resolved = False, mc_runs = [''run_1'']\<rparr>],
              nextMissingId := 1,
              workerJobs := [MissingConnectionCreated 0]\<rparr>"

text \<open>
  A run whose one requirement, HOSTED and without a connection, has the key
  \<open>__proto__\<close>.
\<close>

definition ex_requirement_proto :: jobIntegration where
  "ex_requirement_proto = \<lparr>ji_key = ''__proto__'', ji_integration = ex_hosted\<rparr>"

definition ex_run_proto :: jobRun where
  "ex_run_proto = ex_run\<lparr>run_integrations := [ex_requirement_proto]\<rparr>"

definition ex_store_proto :: store where
  "ex_store_proto = ex_store\<lparr>jobRuns := [''run_1'' \<mapsto> ex_run_proto]\<rparr>"

text \<open>\<open>ex_store\<close> once the DEVELOPER connection its run needs has been created.\<close>

definition ex_store_connected :: store where
  "ex_store_connected =
     ex_store\<lparr>integrationConnections :=
                [\<lparr>conn_id = ''c1'', conn_integrationId = ''shopify'',
                  conn_connectionType = DEVELOPER, conn_externalAccountId = None\<rparr>]\<rparr>"

text \<open>Options of a Shopify integration with an API key.\<close>

definition ex_options :: shopifyIntegrationOptions where
  "ex_options = \<lparr>opt_id = ''shop_1'', opt_apiKey = KeyString ''key_1'', opt_apiSecretKey = ''secret'',
                 opt_adminAccessToken = ''token'', opt_hostName = ''shop.example.com''\<rparr>"

section \<open>The connection resolver: properties\<close>

lemma resolveStep_snd:
  "snd (resolveStep db run qa ji) = assign (ji_key ji) (resolveOne db run ji) (snd qa)"
  by (cases "integ_authSource (ji_integration ji)")
     (simp_all add: resolveStep_def resolveOne_def hostedWhere_def Let_def split: option.splits)

lemma resolveStep_fst:
  "fst (resolveStep db run qa ji) = fst qa @ (if isHosted ji then [hostedWhere run ji] else [])"
  by (cases "integ_authSource (ji_integration ji)")
     (simp_all add: resolveStep_def isHosted_def Let_def split: option.splits)

lemma foldl_assign:
  "foldl (\<lambda>acc x. assign (f x) (g x) acc) acc0 xs =
     foldl (\<lambda>acc x. AList.update (f x) (g x) acc) acc0 (filter (\<lambda>x. f x \<noteq> ''__proto__'') xs)"
  by (induction xs arbitrary: acc0) (simp_all add: assign_def)

lemma foldl_resolveStep_assign:
  "snd (foldl (resolveStep db run) qa jis) =
     foldl (\<lambda>acc ji. assign (ji_key ji) (resolveOne db run ji) acc) (snd qa) jis"
  by (induction jis arbitrary: qa) (simp_all add: resolveStep_snd)

lemma foldl_resolveStep_snd:
  "snd (foldl (resolveStep db run) qa jis) =
     foldl (\<lambda>acc ji. AList.update (ji_key ji) (resolveOne db run ji) acc) (snd qa)
       (filter ownKey jis)"
  by (simp add: foldl_resolveStep_assign foldl_assign ownKey_def [abs_def])

lemma foldl_resolveStep_fst:
  "fst (foldl (resolveStep db run) qa jis) = fst qa @ map (hostedWhere run) (filter isHosted jis)"
  by (induction jis arbitrary: qa) (simp_all add: resolveStep_fst)

lemma foldl_update_other:
  "k \<notin> f ` set xs \<Longrightarrow>
     map_of (foldl (\<lambda>acc x. AList.update (f x) (g x) acc) acc0 xs) k = map_of acc0 k"
  by (induction xs arbitrary: acc0) (auto simp: update_conv')

lemma foldl_update_distinct:
  "distinct (map f xs) \<Longrightarrow> x \<in> set xs \<Longrightarrow>
     map_of (foldl (\<lambda>acc x. AList.update (f x) (g x) acc) acc0 xs) (f x) = Some (g x)"
proof (induction xs arbitrary: acc0)
  case Nil
  then show ?case by simp
next
  case (Cons y ys)
  show ?case
  proof (cases "x = y")
    case True
    with Cons.prems have "f y \<notin> f ` set ys" by simp
    with True show ?thesis by (simp add: foldl_update_other update_conv')
  next
    case False
    with Cons show ?thesis by simp
  qed
qed

lemma createRunConnections_key:
  assumes "distinct (map ji_key (run_integrations run))" and "ji \<in> set (run_integrations run)"
    and "ownKey ji"
  shows "map_of (snd (createRunConnections db run)) (ji_key ji) = Some (resolveOne db run ji)"
proof -
  from assms(1) have "distinct (map ji_key (filter ownKey (run_integrations run)))"
    by (rule distinct_map_filter)
  moreover from assms(2,3) have "ji \<in> set (filter ownKey (run_integrations run))"
    by simp
  ultimately show ?thesis
    unfolding createRunConnections_def foldl_resolveStep_snd
    by (rule foldl_update_distinct)
qed

lemma createRunConnections_proto:
  "map_of (snd (createRunConnections db run)) ''__proto__'' = None"
proof -
  have "''__proto__'' \<notin> ji_key ` set (filter ownKey (run_integrations run))"
    by (auto simp: ownKey_def)
  then show ?thesis
    unfolding createRunConnections_def foldl_resolveStep_snd
    by (simp add: foldl_update_other)
qed

lemma createRunConnections_lookups:
  "fst (createRunConnections db run) = map (hostedWhere run) (filter isHosted (run_integrations run))"
  by (simp add: createRunConnections_def foldl_resolveStep_fst)

text \<open>
  What the resolver does for the requirements it records. For a run whose requirement
  keys are distinct and every requirement \<open>ji\<close> of it whose key is not \<open>__proto__\<close>,
  the record holds exactly one outcome under the requirement's key: resolved-local for
  LOCAL, resolved-by-resolver for RESOLVER, and for HOSTED the outcome of the single
  lookup \<open>hostedWhere run ji\<close>: resolved-hosted with the connection found, or missing
  with the lookup's connection type and the run's account identifier. That lookup is of
  type EXTERNAL with the run's identifier when the source's test
  \<open>run.externalAccountId ? ... : ...\<close> succeeds (an absent and an empty identifier both
  fail it) and of type DEVELOPER otherwise. The lookups issued are exactly these, one per
  HOSTED requirement. Under the key \<open>__proto__\<close> the record holds nothing.
\<close>

lemma createRunConnections_outcome:
  assumes "distinct (map ji_key (run_integrations run))" and "ji \<in> set (run_integrations run)"
    and "ji_key ji \<noteq> ''__proto__''"
  shows "(integ_authSource (ji_integration ji) = LOCAL \<longrightarrow>
            map_of (snd (createRunConnections db run)) (ji_key ji)
              = Some (ResolvedLocal (ji_integration ji)))
       \<and> (integ_authSource (ji_integration ji) = RESOLVER \<longrightarrow>
            map_of (snd (createRunConnections db run)) (ji_key ji)
              = Some (ResolvedResolver (ji_integration ji)))
       \<and> (integ_authSource (ji_integration ji) = HOSTED \<longrightarrow>
            map_of (snd (createRunConnections db run)) (ji_key ji)
              = Some (case findFirst db (hostedWhere run ji) of
                        Some connection \<Rightarrow> ResolvedHosted connection (ji_integration ji)
                      | None \<Rightarrow>
                          Missing (w_connectionType (hostedWhere run ji)) (ji_integration ji)
                            (run_externalAccountId run)))
       \<and> hostedWhere run ji =
            (if truthy (run_externalAccountId run)
             then \<lparr>w_integrationId = integ_id (ji_integration ji), w_connectionType = EXTERNAL,
                   w_externalAccountId = run_externalAccountId run\<rparr>
             else \<lparr>w_integrationId = integ_id (ji_integration ji), w_connectionType = DEVELOPER,
                   w_externalAccountId = None\<rparr>)
       \<and> fst (createRunConnections db run)
            = map (hostedWhere run)
                (filter (\<lambda>j. integ_authSource (ji_integration j) = HOSTED) (run_integrations run))
       \<and> map_of (snd (createRunConnections db run)) ''__proto__'' = None"
proof -
  from assms(3) have "ownKey ji" by (simp add: ownKey_def)
  with assms(1,2)
  have key: "map_of (snd (createRunConnections db run)) (ji_key ji) = Some (resolveOne db run ji)"
    by (rule createRunConnections_key)
  have lookups: "fst (createRunConnections db run)
      = map (hostedWhere run)
          (filter (\<lambda>j. integ_authSource (ji_integration j) = HOSTED) (run_integrations run))"
    using createRunConnections_lookups [of db run] by (simp add: isHosted_def [abs_def])
  show ?thesis
    using lookups by (simp add: key resolveOne_def hostedWhere_def createRunConnections_proto)
qed

text \<open>
  A run on behalf of the external account \<open>acct_1\<close>, in a store that has a DEVELOPER
  connection only: the one lookup is the EXTERNAL one, and the requirement is missing.
\<close>

lemma createRunConnections_outcome_example:
  "map_of (snd (createRunConnections ex_store_developer ex_run_external)) ''shop''
       = Some (Missing EXTERNAL ex_hosted (Some ''acct_1''))
   \<and> fst (createRunConnections ex_store_developer ex_run_external)
       = [\<lparr>w_integrationId = ''shopify'', w_connectionType = EXTERNAL,
           w_externalAccountId = Some ''acct_1''\<rparr>]"
proof -
  have d: "distinct (map ji_key (run_integrations ex_run_external))"
    by (simp add: ex_run_external_def ex_run_def)
  have m: "ex_requirement \<in> set (run_integrations ex_run_external)"
    by (simp add: ex_run_external_def ex_run_def)
  have k: "ji_key ex_requirement \<noteq> ''__proto__''"
    by (simp add: ex_requirement_def)
  show ?thesis
    using createRunConnections_outcome [OF d m k, of ex_store_developer]
    by (simp add: ex_run_external_def ex_run_def ex_requirement_def ex_hosted_def
          ex_store_developer_def ex_store_def findFirst_def matchesWhere_def)
qed

lemma ex_store_proto_record:
  "createRunConnections ex_store_proto ex_run_proto
     = ([\<lparr>w_integrationId = ''shopify'', w_connectionType = DEVELOPER,
          w_externalAccountId = None\<rparr>], [])"
  by (simp add: createRunConnections_def resolveStep_def assign_def ex_store_proto_def
        ex_run_proto_def ex_requirement_proto_def ex_store_def ex_run_def ex_hosted_def
        findFirst_def hostedWhere_def)

text \<open>
  Claim C2, at a failing input. The run \<open>ex_run_proto\<close> has one requirement, on a HOSTED
  integration, with the key \<open>__proto__\<close>; the store has no connection. The resolver
  issues the one DEVELOPER lookup and finds nothing, so the requirement's outcome is
  missing. The assignment \<open>acc["__proto__"] = ...\<close> makes that outcome the record's
  prototype and not an entry: the record the resolver returns is empty, and the
  requirement has none of the four outcomes in it.
\<close>

theorem C2_proto_key_has_no_outcome:
  "run_integrations ex_run_proto = [ex_requirement_proto]
   \<and> ji_key ex_requirement_proto = ''__proto__''
   \<and> integ_authSource (ji_integration ex_requirement_proto) = HOSTED
   \<and> fst (createRunConnections ex_store_proto ex_run_proto)
        = [\<lparr>w_integrationId = ''shopify'', w_connectionType = DEVELOPER,
            w_externalAccountId = None\<rparr>]
   \<and> findFirst ex_store_proto
        \<lparr>w_integrationId = ''shopify'', w_connectionType = DEVELOPER,
         w_externalAccountId = None\<rparr> = None
   \<and> snd (createRunConnections ex_store_proto ex_run_proto) = []
   \<and> map_of (snd (createRunConnections ex_store_proto ex_run_proto))
        (ji_key ex_requirement_proto) = None"
  by (simp add: ex_store_proto_record)
     (simp add: ex_run_proto_def ex_requirement_proto_def ex_hosted_def ex_store_proto_def
        ex_store_def findFirst_def)

section \<open>The activation gate and the queue transition: properties\<close>

lemma connectOrCreate_frame:
  "jobRuns (connectOrCreate rid db arg) = jobRuns db"
  "jobCounters (connectOrCreate rid db arg) = jobCounters db"
  "runConnections (connectOrCreate rid db arg) = runConnections db"
  "workerJobs (connectOrCreate rid db arg) = workerJobs db"
  "integrationConnections (connectOrCreate rid db arg) = integrationConnections db"
  by (simp_all add: connectOrCreate_def)

lemma foldl_connectOrCreate_frame:
  "jobRuns (foldl (connectOrCreate rid) db args) = jobRuns db"
  "jobCounters (foldl (connectOrCreate rid) db args) = jobCounters db"
  "runConnections (foldl (connectOrCreate rid) db args) = runConnections db"
  "workerJobs (foldl (connectOrCreate rid) db args) = workerJobs db"
  "integrationConnections (foldl (connectOrCreate rid) db args) = integrationConnections db"
  by (induction args arbitrary: db) (simp_all add: connectOrCreate_frame)

lemma handleMissingConnections_found:
  assumes "jobRuns db rid = Some r"
  shows "fst (handleMissingConnections rid rcs db) = Completed"
    and "jobRuns (snd (handleMissingConnections rid rcs db))
           = (jobRuns db)(rid \<mapsto> r\<lparr>run_status := WAITING_ON_CONNECTIONS\<rparr>)"
    and "jobCounters (snd (handleMissingConnections rid rcs db)) = jobCounters db"
    and "runConnections (snd (handleMissingConnections rid rcs db)) = runConnections db"
    and "integrationConnections (snd (handleMissingConnections rid rcs db)) = integrationConnections db"
    and "\<exists>ids. workerJobs (snd (handleMissingConnections rid rcs db))
           = workerJobs db @ map MissingConnectionCreated ids"
proof -
  show "fst (handleMissingConnections rid rcs db) = Completed"
    using assms by (simp add: handleMissingConnections_def Let_def)
  show "jobRuns (snd (handleMissingConnections rid rcs db))
           = (jobRuns db)(rid \<mapsto> r\<lparr>run_status := WAITING_ON_CONNECTIONS\<rparr>)"
    using assms by (simp add: handleMissingConnections_def Let_def foldl_connectOrCreate_frame)
  show "jobCounters (snd (handleMissingConnections rid rcs db)) = jobCounters db"
    using assms by (simp add: handleMissingConnections_def Let_def foldl_connectOrCreate_frame)
  show "runConnections (snd (handleMissingConnections rid rcs db)) = runConnections db"
    using assms by (simp add: handleMissingConnections_def Let_def foldl_connectOrCreate_frame)
  show "integrationConnections (snd (handleMissingConnections rid rcs db)) = integrationConnections db"
    using assms by (simp add: handleMissingConnections_def Let_def foldl_connectOrCreate_frame)
  show "\<exists>ids. workerJobs (snd (handleMissingConnections rid rcs db))
           = workerJobs db @ map MissingConnectionCreated ids"
  proof -
    define db1 where "db1 = foldl (connectOrCreate rid)
        (db\<lparr>jobRuns := (jobRuns db)(rid \<mapsto> r\<lparr>run_status := WAITING_ON_CONNECTIONS\<rparr>)\<rparr>)
        (List.map_filter connectOrCreateOf (map snd rcs))"
    have "workerJobs (snd (handleMissingConnections rid rcs db))
        = workerJobs db @ map MissingConnectionCreated
            (map mc_id (filter (\<lambda>mc. length (mc_runs mc) = 1)
               (filter (\<lambda>mc. rid \<in> set (mc_runs mc)) (missingConnections db1))))"
      using assms
      by (simp add: handleMissingConnections_def Let_def foldl_connectOrCreate_frame db1_def comp_def)
    then show ?thesis by (rule exI)
  qed
qed

lemma handleMissingConnections_absent:
  "jobRuns db rid = None \<Longrightarrow> handleMissingConnections rid rcs db = (Failed, db)"
  by (simp add: handleMissingConnections_def)

lemma handleMissingConnections_other:
  "rid' \<noteq> rid \<Longrightarrow> jobRuns (snd (handleMissingConnections rid' rcs db)) rid = jobRuns db rid"
  by (cases "jobRuns db rid'")
     (simp_all add: handleMissingConnections_absent handleMissingConnections_found)

lemma startRun_LockFails:
  "fault e = LockFails \<Longrightarrow> startRun e rid run rcs db = (Failed, take 1 (queueStatements e rid run), db)"
  by (simp add: startRun_def queueStatements_def Let_def)

lemma startRun_UpsertFails:
  "fault e = UpsertFails \<Longrightarrow> startRun e rid run rcs db = (Failed, take 2 (queueStatements e rid run), db)"
  by (simp add: startRun_def queueStatements_def Let_def)

lemma startRun_RunUpdateFails:
  "fault e = RunUpdateFails \<Longrightarrow> startRun e rid run rcs db = (Failed, take 3 (queueStatements e rid run), db)"
  by (simp add: startRun_def queueStatements_def Let_def split: prod.splits)

lemma startRun_absent:
  "jobRuns db rid = None \<Longrightarrow> fst (startRun e rid run rcs db) = Failed \<and> snd (snd (startRun e rid run rcs db)) = db"
  by (simp add: startRun_def Let_def jobRunUpdateQueued_def split: prod.splits)

lemma startRun_EnqueueFails:
  "fault e = EnqueueFails \<Longrightarrow> jobRuns db rid = Some r \<Longrightarrow>
     startRun e rid run rcs db = (Failed, queueStatements e rid run, queuedStore e rid run rcs db r)"
  by (simp add: startRun_def queueStatements_def queuedStore_def Let_def jobRunUpdateQueued_def
        jobCounterUpsert_def txBegin_def split: prod.splits)

lemma startRun_CommitFails:
  "fault e = CommitFails \<Longrightarrow> jobRuns db rid = Some r \<Longrightarrow>
     startRun e rid run rcs db = (Failed, queueStatements e rid run, queuedStore e rid run rcs db r)"
  by (simp add: startRun_def queueStatements_def queuedStore_def Let_def jobRunUpdateQueued_def
        jobCounterUpsert_def txBegin_def split: prod.splits)

lemma startRun_NoFault:
  "fault e = NoFault \<Longrightarrow> jobRuns db rid = Some r \<Longrightarrow>
     startRun e rid run rcs db =
       (Completed, queueStatements e rid run,
        (queuedStore e rid run rcs db r)
          \<lparr>jobCounters := (jobCounters db)(run_jobId run \<mapsto>
               (case jobCounters db (run_jobId run) of None \<Rightarrow> 1 | Some n \<Rightarrow> n + 1)),
           workerJobs := workerJobs db @ [ResumeRun rid]\<rparr>)"
  by (simp add: startRun_def queueStatements_def queuedStore_def Let_def jobRunUpdateQueued_def
        jobCounterUpsert_def txBegin_def txCommit_def enqueueResumeRun_def split: prod.splits)

lemma startRun_other:
  assumes "rid' \<noteq> rid"
  shows "jobRuns (snd (snd (startRun e rid' run rcs db))) rid = jobRuns db rid"
proof (cases "jobRuns db rid'")
  case None
  then show ?thesis by (simp add: startRun_absent)
next
  case (Some r)
  with assms show ?thesis
    by (cases "fault e")
       (simp_all add: startRun_LockFails startRun_UpsertFails startRun_RunUpdateFails
          startRun_EnqueueFails startRun_CommitFails startRun_NoFault queuedStore_def)
qed

lemma call_other:
  assumes "rid' \<noteq> rid"
  shows "jobRuns (snd (call e rid' db)) rid = jobRuns db rid"
proof (cases "findRun db rid'")
  case None
  then show ?thesis by (simp add: call_def)
next
  case (Some run)
  show ?thesis
  proof (cases "runIsStartable run")
    case False
    with Some show ?thesis by (simp add: call_def)
  next
    case True
    show ?thesis
    proof (cases "hasMissingConnections (snd (createRunConnections db run))")
      case True
      with Some \<open>runIsStartable run\<close> assms show ?thesis
        by (simp add: call_def Let_def handleMissingConnections_other)
    next
      case False
      with Some \<open>runIsStartable run\<close> have
        "snd (call e rid' db) = snd (snd (startRun e rid' run (snd (createRunConnections db run)) db))"
        by (simp add: call_def Let_def split: prod.splits)
      with assms show ?thesis by (simp add: startRun_other)
    qed
  qed
qed

lemma call_not_startable:
  "jobRuns db rid = Some run \<Longrightarrow> \<not> runIsStartable run \<Longrightarrow> call e rid db = (Completed, db)"
  by (simp add: call_def findRun_def)

lemma call_keeps_queued:
  assumes "jobRuns db rid = Some run" and "run_status run = QUEUED"
  shows "jobRuns (snd (call e rid' db)) rid = Some run"
proof (cases "rid' = rid")
  case True
  with assms show ?thesis by (simp add: call_not_startable runIsStartable_def)
next
  case False
  with assms show ?thesis by (simp add: call_other)
qed

lemma activateAll_keeps_queued:
  "jobRuns db rid = Some run \<Longrightarrow> run_status run = QUEUED \<Longrightarrow>
     jobRuns (activateAll calls db) rid = Some run"
  unfolding activateAll_def
  by (induction calls arbitrary: db) (simp_all add: call_keeps_queued)

text \<open>
  Activations that run one after the other. Activating a run whose status is QUEUED
  returns without an error and leaves the whole store as it was, and through any sequence
  of whole activations, of this run or of others and under any environment, the run stays
  exactly as it was.
\<close>

lemma queued_is_final_sequential:
  assumes "jobRuns db rid = Some run" and "run_status run = QUEUED"
  shows "call e rid db = (Completed, db) \<and> jobRuns (activateAll calls db) rid = Some run"
  using assms
  by (simp add: call_not_startable runIsStartable_def activateAll_keeps_queued)

lemma queued_is_final_sequential_example:
  "call ex_env ''run_1'' ex_store_queued = (Completed, ex_store_queued)
   \<and> jobRuns (activateAll [(ex_env, ''run_1''), (ex_env, ''run_2''),
          (ex_env\<lparr>fault := CommitFails\<rparr>, ''run_1'')] ex_store_queued) ''run_1''
        = Some ex_run_queued"
proof -
  have 1: "jobRuns ex_store_queued ''run_1'' = Some ex_run_queued"
    by (simp add: ex_store_queued_def)
  have 2: "run_status ex_run_queued = QUEUED"
    by (simp add: ex_run_queued_def)
  show ?thesis
    using queued_is_final_sequential [OF 1 2] by simp
qed

lemma startRun_Completed:
  assumes "fst (startRun e rid run rcs db) = Completed"
  shows "fault e = NoFault \<and> (\<exists>r. jobRuns db rid = Some r)"
proof (cases "jobRuns db rid")
  case None
  with assms show ?thesis by (simp add: startRun_absent)
next
  case (Some r)
  with assms show ?thesis
    by (cases "fault e")
       (simp_all add: startRun_LockFails startRun_UpsertFails startRun_RunUpdateFails
          startRun_EnqueueFails startRun_CommitFails)
qed

lemma call_missing:
  "findRun db rid = Some run \<Longrightarrow> runIsStartable run \<Longrightarrow>
   hasMissingConnections (snd (createRunConnections db run)) \<Longrightarrow>
     call e rid db = handleMissingConnections rid (snd (createRunConnections db run)) db"
  by (simp add: call_def Let_def)

lemma call_resolved:
  "findRun db rid = Some run \<Longrightarrow> runIsStartable run \<Longrightarrow>
   \<not> hasMissingConnections (snd (createRunConnections db run)) \<Longrightarrow>
     call e rid db = (fst (startRun e rid run (snd (createRunConnections db run)) db),
                      snd (snd (startRun e rid run (snd (createRunConnections db run)) db)))"
  by (simp add: call_def Let_def split: prod.splits)

lemma call_absent: "findRun db rid = None \<Longrightarrow> call e rid db = (Completed, db)"
  by (simp add: call_def)

lemma hasMissing_filter:
  "hasMissingConnections rcs \<longleftrightarrow> filter isMissing (map snd rcs) \<noteq> []"
  by (simp add: hasMissingConnections_def list_ex_iff filter_empty_conv)

lemma runIsStartable_iff:
  "runIsStartable run \<longleftrightarrow> run_status run = PENDING \<or> run_status run = WAITING_ON_CONNECTIONS"
  by (auto simp: runIsStartable_def)

text \<open>
  Claim C3. \<open>call\<close> on a run that is absent, or whose status is neither PENDING nor
  WAITING_ON_CONNECTIONS, returns without an error and leaves the store as it was. On a
  run in one of the two statuses: when no entry of the resolver's record is missing, the
  call is the queue transition \<open>startRun\<close>, and when the transaction does not fail the
  run's status is QUEUED afterwards; when one entry or more is missing, the call is the
  tracker \<open>handleMissingConnections\<close>, and the run's status is WAITING_ON_CONNECTIONS
  afterwards.
\<close>

theorem C3_activation_gate:
  "(findRun db rid = None \<longrightarrow> call e rid db = (Completed, db))
   \<and> (\<forall>run. findRun db rid = Some run \<and> run_status run \<noteq> PENDING
            \<and> run_status run \<noteq> WAITING_ON_CONNECTIONS \<longrightarrow>
          call e rid db = (Completed, db))
   \<and> (\<forall>run. findRun db rid = Some run
            \<and> (run_status run = PENDING \<or> run_status run = WAITING_ON_CONNECTIONS)
            \<and> filter isMissing (map snd (snd (createRunConnections db run))) = [] \<longrightarrow>
          call e rid db = (fst (startRun e rid run (snd (createRunConnections db run)) db),
                           snd (snd (startRun e rid run (snd (createRunConnections db run)) db)))
          \<and> (fault e = NoFault \<longrightarrow>
                fst (call e rid db) = Completed
                \<and> map_option run_status (jobRuns (snd (call e rid db)) rid) = Some QUEUED))
   \<and> (\<forall>run. findRun db rid = Some run
            \<and> (run_status run = PENDING \<or> run_status run = WAITING_ON_CONNECTIONS)
            \<and> filter isMissing (map snd (snd (createRunConnections db run))) \<noteq> [] \<longrightarrow>
          call e rid db = handleMissingConnections rid (snd (createRunConnections db run)) db
          \<and> fst (call e rid db) = Completed
          \<and> map_option run_status (jobRuns (snd (call e rid db)) rid)
                = Some WAITING_ON_CONNECTIONS)"
proof (intro conjI allI impI)
  assume "findRun db rid = None"
  then show "call e rid db = (Completed, db)" by (rule call_absent)
next
  fix run
  assume "findRun db rid = Some run \<and> run_status run \<noteq> PENDING
            \<and> run_status run \<noteq> WAITING_ON_CONNECTIONS"
  then show "call e rid db = (Completed, db)"
    by (simp add: call_not_startable findRun_def runIsStartable_iff)
next
  fix run
  assume a: "findRun db rid = Some run
            \<and> (run_status run = PENDING \<or> run_status run = WAITING_ON_CONNECTIONS)
            \<and> filter isMissing (map snd (snd (createRunConnections db run))) = []"
  then show c: "call e rid db = (fst (startRun e rid run (snd (createRunConnections db run)) db),
                           snd (snd (startRun e rid run (snd (createRunConnections db run)) db)))"
    by (simp add: call_resolved runIsStartable_iff hasMissing_filter)
  assume f: "fault e = NoFault"
  from a have r: "jobRuns db rid = Some run" by (simp add: findRun_def)
  show "fst (call e rid db) = Completed"
    by (simp add: c startRun_NoFault [OF f r])
  show "map_option run_status (jobRuns (snd (call e rid db)) rid) = Some QUEUED"
    by (simp add: c startRun_NoFault [OF f r] queuedStore_def)
next
  fix run
  assume a: "findRun db rid = Some run
            \<and> (run_status run = PENDING \<or> run_status run = WAITING_ON_CONNECTIONS)
            \<and> filter isMissing (map snd (snd (createRunConnections db run))) \<noteq> []"
  then show c: "call e rid db = handleMissingConnections rid (snd (createRunConnections db run)) db"
    by (simp add: call_missing runIsStartable_iff hasMissing_filter)
  from a have r: "jobRuns db rid = Some run" by (simp add: findRun_def)
  show "fst (call e rid db) = Completed"
    by (simp add: c handleMissingConnections_found [OF r])
  show "map_option run_status (jobRuns (snd (call e rid db)) rid) = Some WAITING_ON_CONNECTIONS"
    by (simp add: c handleMissingConnections_found [OF r])
qed

lemma ex_store_missing:
  "snd (createRunConnections ex_store ex_run) = [(''shop'', Missing DEVELOPER ex_hosted None)]"
  by (simp add: createRunConnections_def resolveStep_def assign_def ex_store_def ex_run_def
        ex_requirement_def ex_hosted_def findFirst_def hostedWhere_def)

lemma ex_store_local_resolved:
  "snd (createRunConnections ex_store_local ex_run_local) = [(''gh'', ResolvedLocal ex_local)]"
  by (simp add: createRunConnections_def resolveStep_def assign_def ex_run_local_def ex_run_def ex_local_def)

theorem C3_activation_gate_witness:
  "call ex_env ''run_2'' ex_store = (Completed, ex_store)
   \<and> call ex_env ''run_1'' ex_store_queued = (Completed, ex_store_queued)
   \<and> fst (call ex_env ''run_1'' ex_store_local) = Completed
   \<and> map_option run_status (jobRuns (snd (call ex_env ''run_1'' ex_store_local)) ''run_1'') = Some QUEUED
   \<and> fst (call ex_env ''run_1'' ex_store) = Completed
   \<and> map_option run_status (jobRuns (snd (call ex_env ''run_1'' ex_store)) ''run_1'')
        = Some WAITING_ON_CONNECTIONS"
proof -
  have 1: "findRun ex_store ''run_2'' = None"
    by (simp add: findRun_def ex_store_def)
  have 2: "findRun ex_store_queued ''run_1'' = Some ex_run_queued \<and> run_status ex_run_queued \<noteq> PENDING
            \<and> run_status ex_run_queued \<noteq> WAITING_ON_CONNECTIONS"
    by (simp add: findRun_def ex_store_queued_def ex_store_def ex_run_queued_def)
  have 3: "findRun ex_store_local ''run_1'' = Some ex_run_local
            \<and> (run_status ex_run_local = PENDING \<or> run_status ex_run_local = WAITING_ON_CONNECTIONS)
            \<and> filter isMissing (map snd (snd (createRunConnections ex_store_local ex_run_local))) = []"
    by (simp add: ex_store_local_resolved) (simp add: findRun_def ex_store_local_def ex_store_def ex_run_local_def ex_run_def)
  have 4: "findRun ex_store ''run_1'' = Some ex_run
            \<and> (run_status ex_run = PENDING \<or> run_status ex_run = WAITING_ON_CONNECTIONS)
            \<and> filter isMissing (map snd (snd (createRunConnections ex_store ex_run))) \<noteq> []"
    by (simp add: ex_store_missing) (simp add: findRun_def ex_store_def ex_run_def)
  have 5: "fault ex_env = NoFault" by (simp add: ex_env_def)
  have a: "call ex_env ''run_2'' ex_store = (Completed, ex_store)"
    using 1 C3_activation_gate [of ex_store "''run_2''" ex_env] by (elim conjE) simp
  have b: "call ex_env ''run_1'' ex_store_queued = (Completed, ex_store_queued)"
    using 2 C3_activation_gate [of ex_store_queued "''run_1''" ex_env] by (elim conjE) blast
  have c: "fst (call ex_env ''run_1'' ex_store_local) = Completed
     \<and> map_option run_status (jobRuns (snd (call ex_env ''run_1'' ex_store_local)) ''run_1'') = Some QUEUED"
    using 3 5 C3_activation_gate [of ex_store_local "''run_1''" ex_env] by (elim conjE) blast
  have d: "fst (call ex_env ''run_1'' ex_store) = Completed
     \<and> map_option run_status (jobRuns (snd (call ex_env ''run_1'' ex_store)) ''run_1'')
        = Some WAITING_ON_CONNECTIONS"
    using 4 C3_activation_gate [of ex_store "''run_1''" ex_env] by (elim conjE) blast
  show ?thesis using a b c d by simp
qed


text \<open>
  The tracker's path. When an activation passes the guard and the resolver's record
  holds a missing entry, the run afterwards is the run found with only its status changed, to
  WAITING_ON_CONNECTIONS: its sequence number and its queued-at timestamp are what they
  were. No counter of any job changes, no run connection is created, and the worker
  queue gains notifications only, no dispatch.
\<close>

lemma missing_path_frame:
  assumes "findRun db rid = Some run"
    and "run_status run = PENDING \<or> run_status run = WAITING_ON_CONNECTIONS"
    and "hasMissingConnections (snd (createRunConnections db run))"
  shows "jobRuns (snd (call e rid db)) rid = Some (run\<lparr>run_status := WAITING_ON_CONNECTIONS\<rparr>)
       \<and> map_option run_status (jobRuns (snd (call e rid db)) rid) = Some WAITING_ON_CONNECTIONS
       \<and> map_option run_number (jobRuns (snd (call e rid db)) rid) = Some (run_number run)
       \<and> map_option run_queuedAt (jobRuns (snd (call e rid db)) rid) = Some (run_queuedAt run)
       \<and> jobCounters (snd (call e rid db)) = jobCounters db
       \<and> runConnections (snd (call e rid db)) = runConnections db
       \<and> (\<exists>ids. workerJobs (snd (call e rid db)) = workerJobs db @ map MissingConnectionCreated ids)"
proof -
  from assms(1) have r: "jobRuns db rid = Some run" by (simp add: findRun_def)
  from assms have c: "call e rid db = handleMissingConnections rid (snd (createRunConnections db run)) db"
    by (simp add: call_missing runIsStartable_iff)
  show ?thesis
    unfolding c using handleMissingConnections_found [OF r, of "snd (createRunConnections db run)"]
    by simp
qed

lemma missing_path_frame_example:
  "findRun ex_store ''run_1'' = Some ex_run
   \<and> hasMissingConnections (snd (createRunConnections ex_store ex_run))
   \<and> jobRuns (snd (call ex_env ''run_1'' ex_store)) ''run_1''
        = Some (ex_run\<lparr>run_status := WAITING_ON_CONNECTIONS\<rparr>)
   \<and> map_option run_number (jobRuns (snd (call ex_env ''run_1'' ex_store)) ''run_1'') = Some None
   \<and> map_option run_queuedAt (jobRuns (snd (call ex_env ''run_1'' ex_store)) ''run_1'') = Some None
   \<and> jobCounters (snd (call ex_env ''run_1'' ex_store)) = Map.empty
   \<and> runConnections (snd (call ex_env ''run_1'' ex_store)) = []"
proof -
  have 1: "findRun ex_store ''run_1'' = Some ex_run"
    by (simp add: findRun_def ex_store_def)
  have 2: "run_status ex_run = PENDING \<or> run_status ex_run = WAITING_ON_CONNECTIONS"
    by (simp add: ex_run_def)
  have 3: "hasMissingConnections (snd (createRunConnections ex_store ex_run))"
    by (simp add: ex_store_missing hasMissingConnections_def)
  have 4: "run_number ex_run = None \<and> run_queuedAt ex_run = None
      \<and> jobCounters ex_store = Map.empty \<and> runConnections ex_store = []"
    by (simp add: ex_run_def ex_store_def)
  show ?thesis
    using 1 3 4 missing_path_frame [OF 1 2 3, of ex_env] by simp
qed

text \<open>
  Claim C4. When the queue transition completes, its statements were, in this order, the
  advisory lock on the job's lock key, the upsert of the job's counter, the update of the
  run and the hand-off to the dispatch. The job's counter afterwards is 1 when the job had
  none and the stored value plus 1 otherwise, and the run's sequence number is that value;
  so the first run queued for a job has number 1.
\<close>

theorem C4_sequence_number:
  assumes "startRun e rid run rcs db = (Completed, stmts, db')"
  shows "stmts = [AdvisoryXactLock (jobIdToLockId e (run_jobId run)),
                  JobCounterUpsert (run_jobId run), JobRunUpdate rid, EnqueueResumeRun rid]
       \<and> jobCounters db' (run_jobId run)
            = Some (case jobCounters db (run_jobId run) of None \<Rightarrow> 1 | Some n \<Rightarrow> n + 1)
       \<and> map_option run_number (jobRuns db' rid) = Some (jobCounters db' (run_jobId run))
       \<and> map_option run_status (jobRuns db' rid) = Some QUEUED
       \<and> (jobCounters db (run_jobId run) = None \<longrightarrow>
            map_option run_number (jobRuns db' rid) = Some (Some 1))"
proof -
  from assms have "fst (startRun e rid run rcs db) = Completed" by simp
  then obtain r where f: "fault e = NoFault" and r: "jobRuns db rid = Some r"
    using startRun_Completed by blast
  from assms startRun_NoFault [OF f r, of run rcs]
  have s: "stmts = queueStatements e rid run"
    and d: "db' = (queuedStore e rid run rcs db r)
          \<lparr>jobCounters := (jobCounters db)(run_jobId run \<mapsto>
               (case jobCounters db (run_jobId run) of None \<Rightarrow> 1 | Some n \<Rightarrow> n + 1)),
           workerJobs := workerJobs db @ [ResumeRun rid]\<rparr>"
    by simp_all
  show ?thesis
    by (simp add: s d queueStatements_def queuedStore_def)
qed

theorem C4_sequence_number_witness:
  "(\<exists>db'. startRun ex_env ''run_1'' ex_run_local [(''gh'', ResolvedLocal ex_local)] ex_store_local
       = (Completed,
          [AdvisoryXactLock (Some 3128432319), JobCounterUpsert ''abc'', JobRunUpdate ''run_1'',
           EnqueueResumeRun ''run_1''], db')
     \<and> jobCounters db' ''abc'' = Some 1
     \<and> map_option run_number (jobRuns db' ''run_1'') = Some (Some 1))"
proof -
  have f: "fault ex_env = NoFault" by (simp add: ex_env_def)
  have r: "jobRuns ex_store_local ''run_1'' = Some ex_run_local"
    by (simp add: ex_store_local_def ex_store_def)
  have j: "run_jobId ex_run_local = ''abc''" by (simp add: ex_run_local_def ex_run_def)
  have c: "jobCounters ex_store_local ''abc'' = None" by (simp add: ex_store_local_def ex_store_def)
  have l: "jobIdToLockId ex_env ''abc'' = Some 3128432319"
    by (simp add: jobIdToLockId_def ex_env_def parseInt16_def hexDigit_def)
  obtain db' where s: "startRun ex_env ''run_1'' ex_run_local [(''gh'', ResolvedLocal ex_local)] ex_store_local
       = (Completed, queueStatements ex_env ''run_1'' ex_run_local, db')"
    using startRun_NoFault [OF f r] by simp
  from C4_sequence_number [OF s] j c l s show ?thesis
    by (simp add: queueStatements_def)
qed

text \<open>
  What a failed queue transition leaves behind. The writes of the transaction client are
  dropped; when the failure comes after the update of the run, the update is kept.
\<close>

lemma startRun_failed_tx_writes:
  assumes "fst (startRun e rid run rcs db) = Failed"
  shows "jobCounters (snd (snd (startRun e rid run rcs db))) = jobCounters db
       \<and> workerJobs (snd (snd (startRun e rid run rcs db))) = workerJobs db"
proof (cases "jobRuns db rid")
  case None
  then show ?thesis by (simp add: startRun_absent)
next
  case (Some r)
  with assms show ?thesis
    by (cases "fault e")
       (simp_all add: startRun_LockFails startRun_UpsertFails startRun_RunUpdateFails
          startRun_EnqueueFails startRun_CommitFails startRun_NoFault queuedStore_def)
qed

lemma startRun_failed_after_update:
  assumes "fault e = EnqueueFails \<or> fault e = CommitFails" and "jobRuns db rid = Some r"
  shows "startRun e rid run rcs db = (Failed, queueStatements e rid run, queuedStore e rid run rcs db r)"
  using assms by (auto simp: startRun_EnqueueFails startRun_CommitFails)

text \<open>
  Claim C1, at a failing input. The run \<open>run_1\<close> of \<open>ex_store_local\<close> is PENDING, with
  one LOCAL requirement, no sequence number, no queued-at timestamp and no run connection.
  The hand-off to the dispatch, the last statement inside the transaction, fails. The
  transaction rolls back: the job has no counter and nothing is dispatched. The update of
  the run went through the service's own client and not through the transaction's, so it
  stays: the run is QUEUED with sequence number 1, a queued-at timestamp and a run
  connection.
\<close>

theorem C1_failed_transaction_keeps_run_update:
  "fst (call (ex_env\<lparr>fault := EnqueueFails\<rparr>) ''run_1'' ex_store_local) = Failed
   \<and> jobRuns (snd (call (ex_env\<lparr>fault := EnqueueFails\<rparr>) ''run_1'' ex_store_local)) ''run_1''
        = Some (ex_run_local\<lparr>run_number := Some 1, run_status := QUEUED,
                             run_queuedAt := Some 1700000000000\<rparr>)
   \<and> runConnections (snd (call (ex_env\<lparr>fault := EnqueueFails\<rparr>) ''run_1'' ex_store_local))
        = [\<lparr>rc_runId = ''run_1'', rc_key = ''gh'', rc_connectionId = None,
            rc_integrationId = ''github'', rc_authSource = LOCAL\<rparr>]
   \<and> jobCounters (snd (call (ex_env\<lparr>fault := EnqueueFails\<rparr>) ''run_1'' ex_store_local)) ''abc'' = None
   \<and> workerJobs (snd (call (ex_env\<lparr>fault := EnqueueFails\<rparr>) ''run_1'' ex_store_local)) = []
   \<and> jobRuns ex_store_local ''run_1'' = Some ex_run_local
   \<and> run_status ex_run_local = PENDING \<and> run_number ex_run_local = None
   \<and> run_queuedAt ex_run_local = None \<and> runConnections ex_store_local = []"
proof -
  let ?e = "ex_env\<lparr>fault := EnqueueFails\<rparr>"
  have f: "fault ?e = EnqueueFails" by simp
  have r: "jobRuns ex_store_local ''run_1'' = Some ex_run_local"
    by (simp add: ex_store_local_def ex_store_def)
  have st: "runIsStartable ex_run_local"
    by (simp add: runIsStartable_iff ex_run_local_def ex_run_def)
  have nm: "\<not> hasMissingConnections (snd (createRunConnections ex_store_local ex_run_local))"
    by (simp add: ex_store_local_resolved hasMissingConnections_def)
  have c: "call ?e ''run_1'' ex_store_local =
      (Failed, queuedStore ?e ''run_1'' ex_run_local [(''gh'', ResolvedLocal ex_local)] ex_store_local ex_run_local)"
    using r st nm
    by (simp add: call_resolved findRun_def startRun_EnqueueFails [OF f r] ex_store_local_resolved)
  show ?thesis
    unfolding c
    by (simp add: queuedStore_def List.map_filter_def ex_store_local_def ex_store_def
          ex_run_local_def ex_run_def ex_local_def ex_env_def)
qed

lemma ex_store_proto_call:
  "call ex_env ''run_1'' ex_store_proto =
     (Completed,
      (queuedStore ex_env ''run_1'' ex_run_proto [] ex_store_proto ex_run_proto)
        \<lparr>jobCounters := [''abc'' \<mapsto> 1], workerJobs := [ResumeRun ''run_1'']\<rparr>)"
proof -
  have f: "fault ex_env = NoFault" by (simp add: ex_env_def)
  have r: "jobRuns ex_store_proto ''run_1'' = Some ex_run_proto"
    by (simp add: ex_store_proto_def)
  have st: "runIsStartable ex_run_proto"
    by (simp add: runIsStartable_iff ex_run_proto_def ex_run_def)
  have nm: "\<not> hasMissingConnections (snd (createRunConnections ex_store_proto ex_run_proto))"
    by (simp add: ex_store_proto_record hasMissingConnections_def)
  have "call ex_env ''run_1'' ex_store_proto =
      (fst (startRun ex_env ''run_1'' ex_run_proto [] ex_store_proto),
       snd (snd (startRun ex_env ''run_1'' ex_run_proto [] ex_store_proto)))"
    using call_resolved [of ex_store_proto "''run_1''" ex_run_proto ex_env] r st nm
    by (simp add: findRun_def ex_store_proto_record)
  then show ?thesis
    by (simp add: startRun_NoFault [OF f r])
       (simp add: ex_store_proto_def ex_store_def ex_run_proto_def ex_run_def)
qed

text \<open>
  Claim C6, at a failing input. The run \<open>run_1\<close> of \<open>ex_store_proto\<close> is PENDING; its
  one requirement, on a HOSTED integration, has the key \<open>__proto__\<close>, and no connection
  exists, so the requirement resolves to missing. The outcome is not an entry of the
  resolver's record, \<open>hasMissingConnections\<close> sees nothing missing, and the activation
  takes the queue transition: the run is QUEUED with sequence number 1 and a queued-at
  timestamp, the job's counter is consumed, the run is dispatched, and no missing
  connection is recorded.
\<close>

theorem C6_proto_key_run_is_queued:
  "findRun ex_store_proto ''run_1'' = Some ex_run_proto
   \<and> run_status ex_run_proto = PENDING
   \<and> run_integrations ex_run_proto = [ex_requirement_proto]
   \<and> integ_authSource (ji_integration ex_requirement_proto) = HOSTED
   \<and> findFirst ex_store_proto (hostedWhere ex_run_proto ex_requirement_proto) = None
   \<and> resolveOne ex_store_proto ex_run_proto ex_requirement_proto = Missing DEVELOPER ex_hosted None
   \<and> jobCounters ex_store_proto ''abc'' = None
   \<and> fst (call ex_env ''run_1'' ex_store_proto) = Completed
   \<and> jobRuns (snd (call ex_env ''run_1'' ex_store_proto)) ''run_1''
        = Some (ex_run_proto\<lparr>run_number := Some 1, run_status := QUEUED,
                             run_queuedAt := Some 1700000000000\<rparr>)
   \<and> jobCounters (snd (call ex_env ''run_1'' ex_store_proto)) ''abc'' = Some 1
   \<and> workerJobs (snd (call ex_env ''run_1'' ex_store_proto)) = [ResumeRun ''run_1'']
   \<and> missingConnections (snd (call ex_env ''run_1'' ex_store_proto)) = []"
proof -
  have a: "findRun ex_store_proto ''run_1'' = Some ex_run_proto
      \<and> run_status ex_run_proto = PENDING
      \<and> run_integrations ex_run_proto = [ex_requirement_proto]
      \<and> integ_authSource (ji_integration ex_requirement_proto) = HOSTED
      \<and> jobCounters ex_store_proto ''abc'' = None"
    by (simp add: findRun_def ex_store_proto_def ex_store_def ex_run_proto_def ex_run_def
          ex_requirement_proto_def ex_hosted_def)
  have h: "hostedWhere ex_run_proto ex_requirement_proto
      = \<lparr>w_integrationId = ''shopify'', w_connectionType = DEVELOPER, w_externalAccountId = None\<rparr>"
    by (simp add: hostedWhere_def ex_run_proto_def ex_run_def ex_requirement_proto_def ex_hosted_def)
  have b0: "findFirst ex_store_proto
      \<lparr>w_integrationId = ''shopify'', w_connectionType = DEVELOPER, w_externalAccountId = None\<rparr> = None"
    by (simp add: findFirst_def ex_store_proto_def ex_store_def)
  have b: "findFirst ex_store_proto (hostedWhere ex_run_proto ex_requirement_proto) = None"
    by (simp add: h b0)
  have c: "resolveOne ex_store_proto ex_run_proto ex_requirement_proto = Missing DEVELOPER ex_hosted None"
  proof -
    have "integ_authSource (ji_integration ex_requirement_proto) = HOSTED"
      and "ji_integration ex_requirement_proto = ex_hosted"
      and "run_externalAccountId ex_run_proto = None"
      by (simp_all add: ex_requirement_proto_def ex_hosted_def ex_run_proto_def ex_run_def)
    then show ?thesis by (simp add: resolveOne_def h b0)
  qed
  show ?thesis
    using a b c
    by (simp add: ex_store_proto_call queuedStore_def)
       (simp add: ex_env_def ex_store_proto_def ex_store_def ex_run_proto_def ex_run_def)
qed

text \<open>The two parts of \<open>call\<close>, run without anything in between, are \<open>call\<close>.\<close>

lemma call_decide_perform: "call e rid db = perform e rid (decide db rid) db"
  by (simp add: call_def decide_def perform_def Let_def split: option.splits)

lemma ex_store_connected_call:
  "call ex_env ''run_1'' ex_store_connected =
     (Completed,
      (queuedStore ex_env ''run_1'' ex_run
         [(''shop'', ResolvedHosted
             \<lparr>conn_id = ''c1'', conn_integrationId = ''shopify'',
              conn_connectionType = DEVELOPER, conn_externalAccountId = None\<rparr> ex_hosted)]
         ex_store_connected ex_run)
        \<lparr>jobCounters := [''abc'' \<mapsto> 1], workerJobs := [ResumeRun ''run_1'']\<rparr>)"
proof -
  let ?rcs = "[(''shop'', ResolvedHosted
             \<lparr>conn_id = ''c1'', conn_integrationId = ''shopify'',
              conn_connectionType = DEVELOPER, conn_externalAccountId = None\<rparr> ex_hosted)]"
  have f: "fault ex_env = NoFault" by (simp add: ex_env_def)
  have r: "jobRuns ex_store_connected ''run_1'' = Some ex_run"
    by (simp add: ex_store_connected_def ex_store_def)
  have st: "runIsStartable ex_run"
    by (simp add: runIsStartable_iff ex_run_def)
  have rc: "snd (createRunConnections ex_store_connected ex_run) = ?rcs"
    by (simp add: createRunConnections_def resolveStep_def assign_def ex_store_connected_def
          ex_store_def ex_run_def ex_requirement_def ex_hosted_def findFirst_def hostedWhere_def
          matchesWhere_def)
  have nm: "\<not> hasMissingConnections (snd (createRunConnections ex_store_connected ex_run))"
    by (simp add: rc hasMissingConnections_def)
  have "call ex_env ''run_1'' ex_store_connected =
      (fst (startRun ex_env ''run_1'' ex_run ?rcs ex_store_connected),
       snd (snd (startRun ex_env ''run_1'' ex_run ?rcs ex_store_connected)))"
    using call_resolved [of ex_store_connected "''run_1''" ex_run ex_env] r st nm
    by (simp add: findRun_def rc)
  then show ?thesis
    by (simp add: startRun_NoFault [OF f r])
       (simp add: ex_store_connected_def ex_store_def ex_run_def)
qed

lemma ex_store_decide:
  "decide ex_store ''run_1'' = Track [(''shop'', Missing DEVELOPER ex_hosted None)]"
proof -
  have "findRun ex_store ''run_1'' = Some ex_run"
    by (simp add: findRun_def ex_store_def)
  moreover have "runIsStartable ex_run"
    by (simp add: runIsStartable_iff ex_run_def)
  ultimately show ?thesis
    by (simp add: decide_def ex_store_missing hasMissingConnections_def)
qed

text \<open>
  Claim C7, at a failing input. Two activations of \<open>run_1\<close> overlap. The first reads
  \<open>ex_store\<close>: the run is PENDING and its DEVELOPER connection is missing, so it decides
  for the tracker, and awaits. The connection is created, and the second activation runs
  from its read to its end: the run is QUEUED with sequence number 1 and dispatched. The
  first activation then writes what it decided: \<open>#handleMissingConnections\<close> updates
  the run by its id, whatever its status is by now, and the run leaves QUEUED for
  WAITING_ON_CONNECTIONS, with a notification enqueued after the dispatch.
\<close>

theorem C7_stale_activation_overwrites_queued:
  "decide ex_store ''run_1'' = Track [(''shop'', Missing DEVELOPER ex_hosted None)]
   \<and> call ex_env ''run_1'' ex_store = perform ex_env ''run_1'' (decide ex_store ''run_1'') ex_store
   \<and> fst (call ex_env ''run_1'' ex_store_connected) = Completed
   \<and> map_option run_status (jobRuns (snd (call ex_env ''run_1'' ex_store_connected)) ''run_1'')
        = Some QUEUED
   \<and> map_option run_number (jobRuns (snd (call ex_env ''run_1'' ex_store_connected)) ''run_1'')
        = Some (Some 1)
   \<and> fst (perform ex_env ''run_1'' (decide ex_store ''run_1'')
             (snd (call ex_env ''run_1'' ex_store_connected))) = Completed
   \<and> map_option run_status
        (jobRuns (snd (perform ex_env ''run_1'' (decide ex_store ''run_1'')
                         (snd (call ex_env ''run_1'' ex_store_connected)))) ''run_1'')
        = Some WAITING_ON_CONNECTIONS
   \<and> workerJobs (snd (perform ex_env ''run_1'' (decide ex_store ''run_1'')
                         (snd (call ex_env ''run_1'' ex_store_connected))))
        = [ResumeRun ''run_1'', MissingConnectionCreated 0]"
proof -
  let ?q = "snd (call ex_env ''run_1'' ex_store_connected)"
  have q: "jobRuns ?q ''run_1''
      = Some (ex_run\<lparr>run_number := Some 1, run_status := QUEUED,
                      run_queuedAt := Some 1700000000000\<rparr>)"
    by (simp add: ex_store_connected_call queuedStore_def)
       (simp add: ex_env_def ex_store_connected_def ex_store_def)
  have w: "workerJobs ?q = [ResumeRun ''run_1''] \<and> missingConnections ?q = []
      \<and> nextMissingId ?q = 0"
    by (simp add: ex_store_connected_call queuedStore_def)
       (simp add: ex_store_connected_def ex_store_def)
  have p: "perform ex_env ''run_1'' (decide ex_store ''run_1'') ?q
      = handleMissingConnections ''run_1'' [(''shop'', Missing DEVELOPER ex_hosted None)] ?q"
    by (simp add: ex_store_decide perform_def)
  have s: "map_option run_status
        (jobRuns (snd (handleMissingConnections ''run_1''
                         [(''shop'', Missing DEVELOPER ex_hosted None)] ?q)) ''run_1'')
        = Some WAITING_ON_CONNECTIONS"
    by (simp add: handleMissingConnections_found [OF q])
  have c: "fst (handleMissingConnections ''run_1''
                  [(''shop'', Missing DEVELOPER ex_hosted None)] ?q) = Completed"
    by (simp add: handleMissingConnections_found [OF q])
  have j: "workerJobs (snd (handleMissingConnections ''run_1''
                         [(''shop'', Missing DEVELOPER ex_hosted None)] ?q))
        = [ResumeRun ''run_1'', MissingConnectionCreated 0]"
    using q w
    by (simp add: handleMissingConnections_def connectOrCreate_def Let_def
          foldl_connectOrCreate_frame connectOrCreate_frame)
  have c1: "call ex_env ''run_1'' ex_store = perform ex_env ''run_1'' (decide ex_store ''run_1'') ex_store"
    by (rule call_decide_perform)
  have c2: "fst (call ex_env ''run_1'' ex_store_connected) = Completed"
    by (simp add: ex_store_connected_call)
  have c3: "map_option run_status (jobRuns ?q ''run_1'') = Some QUEUED"
    by (simp add: q)
  have c4: "map_option run_number (jobRuns ?q ''run_1'') = Some (Some 1)"
    by (simp add: q)
  show ?thesis
    unfolding p by (intro conjI ex_store_decide c1 c2 c3 c4 c s j)
qed

section \<open>The missing-connection tracker: properties\<close>




lemma keyOf_runs [simp]: "keyOf (mc\<lparr>mc_runs := rs\<rparr>) = keyOf mc"
  by (simp add: keyOf_def)



lemma attachRun_key [simp]: "keyOf (attachRun rid w mc) = keyOf mc"
  by (simp add: attachRun_def)














lemma ex_first_activation:
  "call ex_env ''run_1'' ex_store = (Completed, ex_store_waiting)"
proof -
  have "call ex_env ''run_1'' ex_store
      = handleMissingConnections ''run_1'' [(''shop'', Missing DEVELOPER ex_hosted None)] ex_store"
    using call_missing [of ex_store "''run_1''" ex_run ex_env]
    by (simp add: ex_store_missing hasMissingConnections_def runIsStartable_iff)
       (simp add: findRun_def ex_store_def ex_run_def)
  also have "\<dots> = (Completed, ex_store_waiting)"
    by (simp add: handleMissingConnections_def connectOrCreate_def ex_store_def ex_store_waiting_def
          ex_hosted_def Let_def)
  finally show ?thesis .
qed



section \<open>Notifications, the lock key and the Shopify integration: properties\<close>

lemma ex_waiting_missing:
  "snd (createRunConnections ex_store_waiting (ex_run\<lparr>run_status := WAITING_ON_CONNECTIONS\<rparr>))
     = [(''shop'', Missing DEVELOPER ex_hosted None)]"
  by (simp add: createRunConnections_def resolveStep_def assign_def ex_store_waiting_def ex_store_def ex_run_def
        ex_requirement_def ex_hosted_def findFirst_def hostedWhere_def)

text \<open>
  Claim C5, at a failing input. The run \<open>run_1\<close> of \<open>ex_store\<close> needs a DEVELOPER
  connection that does not exist. Its first activation creates the missing connection 0,
  attaches the run and enqueues one notification. The second activation, with the
  credential still unresolved, finds the missing connection attached to this one run,
  counts one run, and enqueues the notification for missing connection 0 again.
\<close>

theorem C5_second_activation_notifies_again:
  "call ex_env ''run_1'' ex_store = (Completed, ex_store_waiting)
   \<and> workerJobs ex_store = []
   \<and> workerJobs ex_store_waiting = [MissingConnectionCreated 0]
   \<and> map_option run_status (jobRuns ex_store_waiting ''run_1'') = Some WAITING_ON_CONNECTIONS
   \<and> integrationConnections ex_store_waiting = []
   \<and> call ex_env ''run_1'' ex_store_waiting
        = (Completed, ex_store_waiting\<lparr>workerJobs :=
                         [MissingConnectionCreated 0, MissingConnectionCreated 0]\<rparr>)"
proof -
  have "call ex_env ''run_1'' ex_store_waiting
      = handleMissingConnections ''run_1'' [(''shop'', Missing DEVELOPER ex_hosted None)] ex_store_waiting"
    using call_missing [of ex_store_waiting "''run_1''" "ex_run\<lparr>run_status := WAITING_ON_CONNECTIONS\<rparr>" ex_env]
    by (simp add: ex_waiting_missing hasMissingConnections_def runIsStartable_iff)
       (simp add: findRun_def ex_store_waiting_def)
  also have "\<dots> = (Completed, ex_store_waiting\<lparr>workerJobs :=
                         [MissingConnectionCreated 0, MissingConnectionCreated 0]\<rparr>)"
    by (simp add: handleMissingConnections_def connectOrCreate_def ex_store_def ex_store_waiting_def
          ex_hosted_def Let_def keyOf_def)
  finally show ?thesis
    by (simp add: ex_first_activation) (simp add: ex_store_waiting_def ex_store_def)
qed

lemma hexDigit_range: "hexDigit c = Some d \<Longrightarrow> 0 \<le> d \<and> d < 16"
  by (auto simp: hexDigit_def Let_def split: if_splits)

lemma hexPrefix_range: "d \<in> set (hexPrefix s) \<Longrightarrow> 0 \<le> d \<and> d < 16"
  by (induction s) (auto split: option.splits dest: hexDigit_range hexDigit_range [OF sym])

lemma hexPrefix_length: "length (hexPrefix s) \<le> length s"
  by (induction s) (auto split: option.splits)

lemma foldl_hex_bound:
  "(\<And>d. d \<in> set ds \<Longrightarrow> 0 \<le> d \<and> d < 16) \<Longrightarrow> 0 \<le> (a::int) \<Longrightarrow>
     0 \<le> foldl (\<lambda>n x. 16 * n + x) a ds \<and> foldl (\<lambda>n x. 16 * n + x) a ds < (a + 1) * 16 ^ length ds"
proof (induction ds arbitrary: a)
  case Nil
  then show ?case by simp
next
  case (Cons d ds)
  have d: "0 \<le> d \<and> d < 16" using Cons.prems(1) by simp
  with Cons.prems(2) have a': "0 \<le> 16 * a + d" by simp
  from Cons.IH [OF _ a'] Cons.prems(1)
  have ih: "0 \<le> foldl (\<lambda>n x. 16 * n + x) (16 * a + d) ds"
    "foldl (\<lambda>n x. 16 * n + x) (16 * a + d) ds < (16 * a + d + 1) * 16 ^ length ds"
    by simp_all
  have "(16 * a + d + 1) * 16 ^ length ds \<le> (16 * a + 16) * (16::int) ^ length ds"
    using d by (intro mult_right_mono) simp_all
  also have "\<dots> = (a + 1) * 16 ^ length (d # ds)"
    by (simp add: algebra_simps)
  finally have le: "(16 * a + d + 1) * 16 ^ length ds \<le> (a + 1) * 16 ^ length (d # ds)" .
  from ih(2) le have "foldl (\<lambda>n x. 16 * n + x) (16 * a + d) ds < (a + 1) * 16 ^ length (d # ds)"
    by (rule less_le_trans)
  with ih(1) show ?case by simp
qed

lemma parseInt16_bound:
  assumes "parseInt16 s = Some n"
  shows "0 \<le> n \<and> n < 16 ^ length s"
proof -
  from assms have n: "n = foldl (\<lambda>n x. 16 * n + x) 0 (hexPrefix s)"
    by (auto simp: parseInt16_def split: list.splits)
  have "0 \<le> n \<and> n < (0 + 1) * 16 ^ length (hexPrefix s)"
    unfolding n by (rule foldl_hex_bound) (simp_all add: hexPrefix_range)
  then have lo: "0 \<le> n" and hi: "n < 16 ^ length (hexPrefix s)" by simp_all
  have "(16::int) ^ length (hexPrefix s) \<le> 16 ^ length s"
    by (rule power_increasing) (simp_all add: hexPrefix_length)
  with hi have "n < 16 ^ length s" by (rule less_le_trans)
  with lo show ?thesis ..
qed

lemma jobIdToLockId_bound:
  assumes "jobIdToLockId e jobId = Some n"
  shows "0 \<le> n \<and> n < 2 ^ 32"
proof -
  from assms have "0 \<le> n \<and> n < 16 ^ length (take 8 (digestHex e jobId))"
    unfolding jobIdToLockId_def by (rule parseInt16_bound)
  then have lo: "0 \<le> n" and hi: "n < 16 ^ length (take 8 (digestHex e jobId))" by simp_all
  have "(16::int) ^ length (take 8 (digestHex e jobId)) \<le> 16 ^ 8"
    by (rule power_increasing) simp_all
  with hi have "n < 16 ^ 8" by (rule less_le_trans)
  with lo show ?thesis by simp
qed

lemma startRun_first_statement:
  "\<exists>rest. fst (snd (startRun e rid run rcs db)) = AdvisoryXactLock (jobIdToLockId e (run_jobId run)) # rest"
  by (simp add: startRun_def Let_def jobRunUpdateQueued_def split: prod.splits option.splits)

text \<open>
  Claim C8. The lock key is a function of the job id and of the digest alone: two
  evaluations for the same job id under the same digest function give the same key,
  whatever the clock, the failures, the stores and the runs are, and every queue
  transition of a run of the job starts with the advisory lock on that key. The key is
  the value of at most eight hex digits, so it lies in \<open>[0, 2^32)\<close>.
\<close>

theorem C8_lock_key_deterministic:
  assumes "digestHex e1 = digestHex e2" and "run_jobId run1 = run_jobId run2"
  shows "jobIdToLockId e1 (run_jobId run1) = jobIdToLockId e2 (run_jobId run2)
       \<and> (\<exists>rest1 rest2.
            fst (snd (startRun e1 rid1 run1 rcs1 db1))
              = AdvisoryXactLock (jobIdToLockId e1 (run_jobId run1)) # rest1
          \<and> fst (snd (startRun e2 rid2 run2 rcs2 db2))
              = AdvisoryXactLock (jobIdToLockId e1 (run_jobId run1)) # rest2)
       \<and> (\<forall>n. jobIdToLockId e1 (run_jobId run1) = Some n \<longrightarrow> 0 \<le> n \<and> n < 2 ^ 32)"
proof -
  from assms have eq: "jobIdToLockId e1 (run_jobId run1) = jobIdToLockId e2 (run_jobId run2)"
    by (simp add: jobIdToLockId_def)
  from startRun_first_statement [of e1 rid1 run1 rcs1 db1]
    startRun_first_statement [of e2 rid2 run2 rcs2 db2]
  show ?thesis
    by (auto simp: eq dest: jobIdToLockId_bound)
qed

theorem C8_lock_key_deterministic_witness:
  "digestHex ex_env = digestHex (ex_env\<lparr>now := 0, fault := LockFails\<rparr>)
   \<and> run_jobId ex_run = run_jobId ex_run_local
   \<and> jobIdToLockId ex_env (run_jobId ex_run)
        = jobIdToLockId (ex_env\<lparr>now := 0, fault := LockFails\<rparr>) (run_jobId ex_run_local)
   \<and> jobIdToLockId ex_env (run_jobId ex_run) = Some 3128432319"
proof -
  have 1: "digestHex ex_env = digestHex (ex_env\<lparr>now := 0, fault := LockFails\<rparr>)"
    by simp
  have 2: "run_jobId ex_run = run_jobId ex_run_local"
    by (simp add: ex_run_local_def)
  have 3: "jobIdToLockId ex_env (run_jobId ex_run) = Some 3128432319"
    by (simp add: jobIdToLockId_def ex_env_def ex_run_def parseInt16_def hexDigit_def)
  show ?thesis
    using 1 2 3 C8_lock_key_deterministic [OF 1 2] by simp
qed

text \<open>
  Claim C10. For an instance the constructor returns, \<open>authSource\<close> is LOCAL exactly
  when the options hold a truthy \<open>apiKey\<close>, and HOSTED otherwise. The constructor
  throws when the options have an \<open>apiKey\<close> key whose value is undefined. So an
  instance whose options have the key has authSource LOCAL, and one without the key
  HOSTED.
\<close>

theorem C10_shopify_authSource:
  "(newShopify options = Inr s \<longrightarrow>
      (shopifyAuthSource s = LOCAL \<longleftrightarrow> apiKeyTruthy (opt_apiKey options))
    \<and> (shopifyAuthSource s = HOSTED \<longleftrightarrow> \<not> apiKeyTruthy (opt_apiKey options))
    \<and> (hasApiKeyKey (opt_apiKey options) \<longrightarrow> shopifyAuthSource s = LOCAL)
    \<and> (\<not> hasApiKeyKey (opt_apiKey options) \<longrightarrow> shopifyAuthSource s = HOSTED))
   \<and> (opt_apiKey options = KeyUndefined \<longrightarrow>
        newShopify options = Inl (''Can't create Shopify integration ('' @ opt_id options @
                                   '') as apiKey was undefined''))"
  by (cases "opt_apiKey options") (auto simp: newShopify_def shopifyAuthSource_def split: if_splits)

theorem C10_shopify_authSource_witness:
  "newShopify ex_options = Inr \<lparr>shopify_options = ex_options\<rparr>
   \<and> hasApiKeyKey (opt_apiKey ex_options)
   \<and> shopifyAuthSource \<lparr>shopify_options = ex_options\<rparr> = LOCAL
   \<and> opt_apiKey (ex_options\<lparr>opt_apiKey := KeyUndefined\<rparr>) = KeyUndefined
   \<and> newShopify (ex_options\<lparr>opt_apiKey := KeyUndefined\<rparr>)
        = Inl ''Can't create Shopify integration (shop_1) as apiKey was undefined''
   \<and> newShopify (ex_options\<lparr>opt_apiKey := KeyAbsent\<rparr>)
        = Inr \<lparr>shopify_options = ex_options\<lparr>opt_apiKey := KeyAbsent\<rparr>\<rparr>
   \<and> shopifyAuthSource \<lparr>shopify_options = ex_options\<lparr>opt_apiKey := KeyAbsent\<rparr>\<rparr> = HOSTED"
proof -
  have 1: "newShopify ex_options = Inr \<lparr>shopify_options = ex_options\<rparr>"
    by (simp add: newShopify_def ex_options_def)
  have 2: "hasApiKeyKey (opt_apiKey ex_options)"
    by (simp add: ex_options_def)
  have 3: "newShopify (ex_options\<lparr>opt_apiKey := KeyAbsent\<rparr>)
        = Inr \<lparr>shopify_options = ex_options\<lparr>opt_apiKey := KeyAbsent\<rparr>\<rparr>"
    by (simp add: newShopify_def)
  have 4: "opt_id ex_options = ''shop_1''"
    by (simp add: ex_options_def)
  show ?thesis
    using 1 2 3 4
      C10_shopify_authSource [of ex_options "\<lparr>shopify_options = ex_options\<rparr>"]
      C10_shopify_authSource [of "ex_options\<lparr>opt_apiKey := KeyUndefined\<rparr>"]
      C10_shopify_authSource [of "ex_options\<lparr>opt_apiKey := KeyAbsent\<rparr>"
        "\<lparr>shopify_options = ex_options\<lparr>opt_apiKey := KeyAbsent\<rparr>\<rparr>"]
    by simp
qed

end
